theory Spec2Isabelle
  imports Main "HOL-Library.AList" "HOL-Library.Word"
begin

section \<open>Values, dictionaries and errors\<close>

text \<open>
  The service of \<^verbatim>\<open>backend/routes/todo.py\<close> moves Python dictionaries between an
  HTTP client and one MongoDB collection. A storage identifier (\<^verbatim>\<open>bson.ObjectId\<close>) is
  twelve bytes, that is a 96-bit value: the identifiers the driver generates and the ones
  it decodes from stored documents all are. The values that occur in the dictionaries of
  the handlers are strings, \<^verbatim>\<open>None\<close> and object ids. The constructor
  \<^verbatim>\<open>ObjectId(s)\<close> can also return an object that holds fewer than twelve bytes (see
  below); \<open>ShortOid\<close> is such an object, with the bytes it holds.
\<close>

type_synonym ObjectId = "96 word"

datatype pyval = Str string | PyNone | Oid ObjectId | ShortOid "8 word list"

text \<open>
  A Python \<^verbatim>\<open>dict\<close> (and a BSON document) keeps its keys in insertion order: it is an
  association list. Assignment to an existing key keeps the key's position and
  assignment to a new key appends, which is what \<^const>\<open>AList.update\<close> does.
\<close>

type_synonym dict = "(string \<times> pyval) list"

datatype error =
    HTTPException nat string
  | InvalidId string
  | KeyError string
  | TypeError
  | DuplicateKeyError

subsection \<open>The hexadecimal form of an object id\<close>

text \<open>
  \<^verbatim>\<open>str(oid)\<close> is \<^verbatim>\<open>binascii.hexlify\<close> of the bytes: two lower-case hexadecimal
  digits per byte, most significant first, so 24 digits for a twelve-byte identifier.

  \<^verbatim>\<open>ObjectId(s)\<close> on a string raises \<^verbatim>\<open>InvalidId\<close> unless \<^verbatim>\<open>len(s) == 24\<close>, and
  then takes \<^verbatim>\<open>bytes.fromhex(s)\<close>, raising \<^verbatim>\<open>InvalidId\<close> when that raises.
  \<^verbatim>\<open>bytes.fromhex\<close> reads two hexadecimal digits (either case) per byte and skips ASCII
  whitespace before each byte and at the end; whitespace between the two digits of a
  byte, an odd digit and any other character are errors. So a string of 24 hexadecimal
  digits gives twelve bytes, and a string of 24 characters some of which are whitespace
  gives fewer (\<open>ShortOid\<close> is used for these only). A string with a character outside
  ASCII is refused by one test or the other, whether its length is counted in bytes or in
  code points.
\<close>

definition hexchar :: "nat \<Rightarrow> char" where
  "hexchar d = ''0123456789abcdef'' ! d"

fun hexlify :: "nat \<Rightarrow> nat \<Rightarrow> string" where
  "hexlify 0 n = []"
| "hexlify (Suc k) n = hexlify k (n div 16) @ [hexchar (n mod 16)]"

definition hexval :: "char \<Rightarrow> nat option" where
  "hexval c = map_of
     [(CHR ''0'', 0), (CHR ''1'', 1), (CHR ''2'', 2), (CHR ''3'', 3), (CHR ''4'', 4),
      (CHR ''5'', 5), (CHR ''6'', 6), (CHR ''7'', 7), (CHR ''8'', 8), (CHR ''9'', 9),
      (CHR ''a'', 10), (CHR ''b'', 11), (CHR ''c'', 12), (CHR ''d'', 13), (CHR ''e'', 14),
      (CHR ''f'', 15),
      (CHR ''A'', 10), (CHR ''B'', 11), (CHR ''C'', 12), (CHR ''D'', 13), (CHR ''E'', 14),
      (CHR ''F'', 15)] c"

definition is_space :: "char \<Rightarrow> bool" where
  "is_space c = (c \<in> set [CHR 0x09, CHR 0x0A, CHR 0x0B, CHR 0x0C, CHR 0x0D, CHR '' ''])"

fun fromhex :: "string \<Rightarrow> 8 word list option" where
  "fromhex [] = Some []"
| "fromhex [c] = (if is_space c then Some [] else None)"
| "fromhex (c # c' # cs) =
     (if is_space c then fromhex (c' # cs)
      else (case hexval c of
              None \<Rightarrow> None
            | Some hi \<Rightarrow>
                (case hexval c' of
                   None \<Rightarrow> None
                 | Some lo \<Rightarrow>
                     (case fromhex cs of
                        None \<Rightarrow> None
                      | Some bs \<Rightarrow> Some (word_of_nat (16 * hi + lo) # bs)))))"

definition nat_of_bytes :: "8 word list \<Rightarrow> nat" where
  "nat_of_bytes bs = foldl (\<lambda>acc b. 256 * acc + unat b) 0 bs"

definition ObjectId_str :: "ObjectId \<Rightarrow> string" where
  "ObjectId_str oid = hexlify 24 (unat oid)"

definition ObjectId :: "string \<Rightarrow> error + pyval" where
  "ObjectId s =
     (if length s = 24
      then (case fromhex s of
              None \<Rightarrow> Inl (InvalidId s)
            | Some bs \<Rightarrow>
                Inr (if length bs = 12 then Oid (word_of_nat (nat_of_bytes bs)) else ShortOid bs))
      else Inl (InvalidId s))"

text \<open>Python's \<^verbatim>\<open>str\<close> on the values of a document.\<close>

fun py_str :: "pyval \<Rightarrow> string" where
  "py_str (Str s) = s"
| "py_str PyNone = ''None''"
| "py_str (Oid oid) = ObjectId_str oid"
| "py_str (ShortOid bs) =
     concat (map (\<lambda>b. [hexchar (unat b div 16), hexchar (unat b mod 16)]) bs)"

subsection \<open>Dictionary operations\<close>

text \<open>
  \<^verbatim>\<open>d[k]\<close> and \<^verbatim>\<open>del d[k]\<close> raise \<^verbatim>\<open>KeyError\<close> on a missing key;
  \<^verbatim>\<open>d[k] = v\<close> never fails.
\<close>

definition py_getitem :: "dict \<Rightarrow> string \<Rightarrow> error + pyval" where
  "py_getitem d k = (case map_of d k of None \<Rightarrow> Inl (KeyError k) | Some v \<Rightarrow> Inr v)"

definition py_setitem :: "dict \<Rightarrow> string \<Rightarrow> pyval \<Rightarrow> dict" where
  "py_setitem d k v = AList.update k v d"

definition py_delitem :: "dict \<Rightarrow> string \<Rightarrow> error + dict" where
  "py_delitem d k = (case map_of d k of None \<Rightarrow> Inl (KeyError k) | Some _ \<Rightarrow> Inr (AList.delete k d))"

section \<open>The schema layer\<close>

text \<open>
  \<^verbatim>\<open>schemas/todomodel.py\<close>: \<^verbatim>\<open>TodoUpdate\<close> has the three content fields and
  \<^verbatim>\<open>Todo\<close> has the same three and an optional \<^verbatim>\<open>id\<close>, declared first. A request body
  that reaches a handler has passed validation, so it is a value of the record type.
  \<^verbatim>\<open>dict(todo)\<close> lists the fields in declaration order.
\<close>

record TodoUpdate =
  title :: string
  description :: string
  deadline :: string

record Todo = TodoUpdate +
  id_field :: "string option"

definition dict_TodoUpdate :: "TodoUpdate \<Rightarrow> dict" where
  "dict_TodoUpdate todo =
     [(''title'', Str (title todo)),
      (''description'', Str (description todo)),
      (''deadline'', Str (deadline todo))]"

definition dict_Todo :: "Todo \<Rightarrow> dict" where
  "dict_Todo todo =
     [(''id'', (case id_field todo of None \<Rightarrow> PyNone | Some s \<Rightarrow> Str s)),
      (''title'', Str (title todo)),
      (''description'', Str (description todo)),
      (''deadline'', Str (deadline todo))]"

section \<open>The storage accessor\<close>

text \<open>
  \<^verbatim>\<open>collection\<close> is the module-level handle of \<^verbatim>\<open>database/database.py\<close>. Its state is
  the sequence of stored documents, in the order in which \<^verbatim>\<open>find()\<close> yields them, and
  every handler takes that state and returns it. The five driver calls the handlers make:
  \<^item> \<^verbatim>\<open>find()\<close> yields every document;
  \<^item> \<^verbatim>\<open>find_one({"_id": v})\<close> is the first document whose \<^verbatim>\<open>_id\<close> is \<open>v\<close>, or
    \<^verbatim>\<open>None\<close>;
  \<^item> \<^verbatim>\<open>insert_one(doc)\<close> gives a document without \<^verbatim>\<open>_id\<close> a newly generated object
    id (the generator's output is the argument \<open>new_oid\<close>), stores it with \<^verbatim>\<open>_id\<close> as
    its first field and reports the identifier; a document whose \<^verbatim>\<open>_id\<close> is already in
    the collection is refused with \<^verbatim>\<open>DuplicateKeyError\<close>;
  \<^item> \<^verbatim>\<open>update_one({"_id": v}, {"$set": fields})\<close> assigns the fields in the first
    matching document and does nothing when there is none;
  \<^item> \<^verbatim>\<open>delete_one({"_id": v})\<close> removes the first matching document and reports how
    many it removed.
\<close>

type_synonym collection = "dict list"

definition matches :: "pyval \<Rightarrow> dict \<Rightarrow> bool" where
  "matches v d = (map_of d ''_id'' = Some v)"

definition find_all :: "collection \<Rightarrow> dict list" where
  "find_all coll = coll"

definition find_one :: "collection \<Rightarrow> pyval \<Rightarrow> dict option" where
  "find_one coll v = List.find (matches v) coll"

definition insert_one :: "collection \<Rightarrow> ObjectId \<Rightarrow> dict \<Rightarrow> error + (collection \<times> pyval)" where
  "insert_one coll new_oid doc =
     (let inserted_id = (case map_of doc ''_id'' of None \<Rightarrow> Oid new_oid | Some v \<Rightarrow> v);
          stored = (''_id'', inserted_id) # AList.delete ''_id'' doc
      in if find_one coll inserted_id \<noteq> None then Inl DuplicateKeyError
         else Inr (coll @ [stored], inserted_id))"

definition set_fields :: "dict \<Rightarrow> dict \<Rightarrow> dict" where
  "set_fields upd d = fold (\<lambda>(k, v) d'. AList.update k v d') upd d"

fun update_one :: "collection \<Rightarrow> pyval \<Rightarrow> dict \<Rightarrow> collection" where
  "update_one [] v upd = []"
| "update_one (d # ds) v upd =
     (if matches v d then set_fields upd d # ds else d # update_one ds v upd)"

fun delete_one :: "collection \<Rightarrow> pyval \<Rightarrow> collection \<times> nat" where
  "delete_one [] v = ([], 0)"
| "delete_one (d # ds) v =
     (if matches v d then (ds, 1)
      else (case delete_one ds v of (ds', deleted_count) \<Rightarrow> (d # ds', deleted_count)))"

section \<open>The resource handlers\<close>

text \<open>
  Every handler that returns a document ends with the same two statements,
  \<^verbatim>\<open>todo["id"] = str(todo["_id"])\<close> and \<^verbatim>\<open>del todo["_id"]\<close>, on the dictionary the
  driver returned (a decoded copy: the stored document is not touched).
  In \<^verbatim>\<open>if todo:\<close> the value \<^verbatim>\<open>None\<close> and the empty dictionary are both false.
  In \<^verbatim>\<open>create_todo\<close> the re-fetched document is subscripted without a test, which is a
  \<^verbatim>\<open>TypeError\<close> on \<^verbatim>\<open>None\<close>.
\<close>

definition expose_id :: "dict \<Rightarrow> error + dict" where
  "expose_id todo =
     (case py_getitem todo ''_id'' of
        Inl e \<Rightarrow> Inl e
      | Inr v \<Rightarrow> py_delitem (py_setitem todo ''id'' (Str (py_str v))) ''_id'')"

definition not_found :: error where
  "not_found = HTTPException 404 ''Todo not found''"

text \<open>\<^verbatim>\<open>get_todos\<close>: the loop over \<^verbatim>\<open>collection.find()\<close>, appending to \<^verbatim>\<open>todos\<close>.\<close>

fun get_todos_loop :: "dict list \<Rightarrow> dict list \<Rightarrow> error + dict list" where
  "get_todos_loop [] todos = Inr todos"
| "get_todos_loop (todo # rest) todos =
     (case expose_id todo of
        Inl e \<Rightarrow> Inl e
      | Inr todo' \<Rightarrow> get_todos_loop rest (todos @ [todo']))"

definition get_todos :: "collection \<Rightarrow> (error + dict list) \<times> collection" where
  "get_todos coll = (get_todos_loop (find_all coll) [], coll)"

definition get_todo :: "collection \<Rightarrow> string \<Rightarrow> (error + dict) \<times> collection" where
  "get_todo coll ident =
     (case ObjectId ident of
        Inl e \<Rightarrow> (Inl e, coll)
      | Inr oid \<Rightarrow>
          (case find_one coll oid of
             None \<Rightarrow> (Inl not_found, coll)
           | Some todo \<Rightarrow>
               if todo \<noteq> [] then (expose_id todo, coll) else (Inl not_found, coll)))"

definition create_todo :: "collection \<Rightarrow> ObjectId \<Rightarrow> Todo \<Rightarrow> (error + dict) \<times> collection" where
  "create_todo coll new_oid todo =
     (let todo_dict = dict_Todo todo;
          todo_dict = (if map_of todo_dict ''id'' \<noteq> None
                       then AList.delete ''id'' todo_dict else todo_dict)
      in case insert_one coll new_oid todo_dict of
           Inl e \<Rightarrow> (Inl e, coll)
         | Inr (coll', inserted_id) \<Rightarrow>
             (case find_one coll' inserted_id of
                None \<Rightarrow> (Inl TypeError, coll')
              | Some new_todo \<Rightarrow> (expose_id new_todo, coll')))"

definition update_todo :: "collection \<Rightarrow> string \<Rightarrow> TodoUpdate \<Rightarrow> (error + dict) \<times> collection" where
  "update_todo coll ident todo =
     (let todo_dict = dict_TodoUpdate todo
      in case ObjectId ident of
           Inl e \<Rightarrow> (Inl e, coll)
         | Inr oid \<Rightarrow>
             (let coll' = update_one coll oid todo_dict
              in case find_one coll' oid of
                   None \<Rightarrow> (Inl not_found, coll')
                 | Some updated_todo \<Rightarrow>
                     if updated_todo \<noteq> [] then (expose_id updated_todo, coll')
                     else (Inl not_found, coll')))"

definition delete_todo :: "collection \<Rightarrow> string \<Rightarrow> (error + dict) \<times> collection" where
  "delete_todo coll ident =
     (case ObjectId ident of
        Inl e \<Rightarrow> (Inl e, coll)
      | Inr oid \<Rightarrow>
          (case delete_one coll oid of
             (coll', deleted_count) \<Rightarrow>
               if deleted_count > 0
               then (Inr [(''message'', Str ''Todo deleted successfully'')], coll')
               else (Inl not_found, coll')))"

section \<open>The rest of the collection\<close>

text \<open>The documents of a collection that do not carry a given identifier, in order.\<close>

definition others :: "ObjectId \<Rightarrow> collection \<Rightarrow> collection" where
  "others oid coll = filter (\<lambda>d. map_of d ''_id'' \<noteq> Some (Oid oid)) coll"

section \<open>The public form of a document\<close>

text \<open>
  A record \<open>r\<close> is the public form of a stored document \<open>d\<close> when its \<^verbatim>\<open>id\<close> is the
  string form of the \<^verbatim>\<open>_id\<close> of \<open>d\<close>, the key \<^verbatim>\<open>id\<close> occurs once in it, the key
  \<^verbatim>\<open>_id\<close> does not occur, and its fields of the storage-native type are those that
  \<open>d\<close> has under keys other than \<^verbatim>\<open>_id\<close> and \<^verbatim>\<open>id\<close> (none, for a document whose only
  object id is its \<^verbatim>\<open>_id\<close>).
\<close>

definition count_key :: "string \<Rightarrow> dict \<Rightarrow> nat" where
  "count_key k d = length (filter (\<lambda>p. fst p = k) d)"

fun is_native :: "pyval \<Rightarrow> bool" where
  "is_native (Oid oid) = True"
| "is_native (ShortOid bs) = True"
| "is_native (Str s) = False"
| "is_native PyNone = False"

definition native_fields :: "dict \<Rightarrow> dict" where
  "native_fields d = filter (\<lambda>p. is_native (snd p)) d"

definition public_form :: "dict \<Rightarrow> dict \<Rightarrow> bool" where
  "public_form d r =
     (case map_of d ''_id'' of
        None \<Rightarrow> False
      | Some v \<Rightarrow> map_of r ''id'' = Some (Str (py_str v)) \<and>
                  count_key ''id'' r = 1 \<and> count_key ''_id'' r = 0 \<and>
                  native_fields r =
                    filter (\<lambda>p. fst p \<noteq> ''_id'' \<and> fst p \<noteq> ''id'') (native_fields d))"

section \<open>Example data\<close>

text \<open>
  The scenario of the specification: one stored todo, the body of a \<^verbatim>\<open>PUT\<close>, and the
  body of a \<^verbatim>\<open>POST\<close> that carries an \<^verbatim>\<open>id\<close> of its own.
\<close>

definition milk :: dict where
  "milk = [(''_id'', Oid 0x507f1f77bcf86cd799439011), (''title'', Str ''Buy milk''),
           (''description'', Str ''2%''), (''deadline'', Str ''2024-01-01'')]"

definition bread :: dict where
  "bread = [(''_id'', Oid 0x65a1b2c3d4e5f60718293a4b), (''title'', Str ''Buy bread''),
            (''description'', Str ''rye''), (''deadline'', Str ''2024-02-01'')]"

definition oat_milk :: TodoUpdate where
  "oat_milk = \<lparr>title = ''Buy oat milk'', description = ''2%'', deadline = ''2024-01-02''\<rparr>"

definition eggs :: Todo where
  "eggs = \<lparr>title = ''Buy eggs'', description = ''a dozen'', deadline = ''2024-01-03'',
            id_field = Some ''mine''\<rparr>"

section \<open>Properties of the model\<close>

subsection \<open>Object ids and their string form\<close>

lemma hexlify_numeral:
  "hexlify (numeral k) n = hexlify (pred_numeral k) (n div 16) @ [hexchar (n mod 16)]"
proof -
  have "numeral k = Suc (pred_numeral k)" by (rule numeral_eq_Suc)
  then show ?thesis by (simp only: hexlify.simps)
qed

lemma hexval_hexchar: "d < 16 \<Longrightarrow> hexval (hexchar d) = Some d"
proof -
  assume "d < 16"
  then have "d = 0 \<or> d = 1 \<or> d = 2 \<or> d = 3 \<or> d = 4 \<or> d = 5 \<or> d = 6 \<or> d = 7 \<or> d = 8
     \<or> d = 9 \<or> d = 10 \<or> d = 11 \<or> d = 12 \<or> d = 13 \<or> d = 14 \<or> d = 15"
    by arith
  then show ?thesis
    by (auto simp: hexval_def hexchar_def)
qed

lemma hexchar_not_space: "d < 16 \<Longrightarrow> \<not> is_space (hexchar d)"
proof -
  assume "d < 16"
  then have "d = 0 \<or> d = 1 \<or> d = 2 \<or> d = 3 \<or> d = 4 \<or> d = 5 \<or> d = 6 \<or> d = 7 \<or> d = 8
     \<or> d = 9 \<or> d = 10 \<or> d = 11 \<or> d = 12 \<or> d = 13 \<or> d = 14 \<or> d = 15"
    by arith
  then show ?thesis
    by (auto simp: is_space_def hexchar_def)
qed

lemma fromhex_append:
  "fromhex xs = Some bs \<Longrightarrow>
     fromhex (xs @ ys) = (case fromhex ys of None \<Rightarrow> None | Some bs' \<Rightarrow> Some (bs @ bs'))"
proof (induction xs arbitrary: bs rule: fromhex.induct)
  case 1
  then show ?case by (simp split: option.splits)
next
  case (2 c)
  then show ?case
    by (cases ys) (auto split: if_splits option.splits)
next
  case (3 c c' cs)
  show ?case
  proof (cases "is_space c")
    case True
    then show ?thesis using 3 by simp
  next
    case False
    then obtain hi lo bs0 where h: "hexval c = Some hi" "hexval c' = Some lo"
      "fromhex cs = Some bs0" "bs = word_of_nat (16 * hi + lo) # bs0"
      using "3.prems" by (auto split: option.splits)
    show ?thesis
      using False h "3.IH"(2) [OF False h(1) h(2) h(3)]
      by (simp split: option.splits)
  qed
qed

lemma fromhex_pair:
  "a < 16 \<Longrightarrow> b < 16 \<Longrightarrow> fromhex [hexchar a, hexchar b] = Some [word_of_nat (16 * a + b)]"
  by (simp add: hexval_hexchar hexchar_not_space)

lemma nat_of_bytes_snoc: "nat_of_bytes (bs @ [b]) = 256 * nat_of_bytes bs + unat b"
  by (simp add: nat_of_bytes_def)

lemma hexlify_two:
  "hexlify (Suc (Suc k)) n =
     hexlify k (n div 256) @ [hexchar (n div 16 mod 16), hexchar (n mod 16)]"
proof -
  have "n div 16 div 16 = n div 256"
    using div_mult2_eq [of n 16 16] by simp
  then show ?thesis by simp
qed

lemma unat_byte: "n < 256 \<Longrightarrow> unat (word_of_nat n :: 8 word) = n"
  by (simp add: unat_of_nat)

lemma fromhex_hexlify:
  "\<exists>bs. fromhex (hexlify (2 * k) n) = Some bs \<and> length bs = k \<and>
        nat_of_bytes bs = n mod 256 ^ k"
proof (induction k arbitrary: n)
  case 0
  then show ?case by (simp add: nat_of_bytes_def)
next
  case (Suc k)
  obtain bs where bs: "fromhex (hexlify (2 * k) (n div 256)) = Some bs" "length bs = k"
    "nat_of_bytes bs = (n div 256) mod 256 ^ k"
    using Suc [of "n div 256"] by blast
  let ?b = "word_of_nat (16 * (n div 16 mod 16) + n mod 16) :: 8 word"
  have v: "16 * (n div 16 mod 16) + n mod 16 = n mod 256"
    using mod_mult2_eq [of n 16 16] by simp
  have u: "unat ?b = n mod 256"
    unfolding v by (rule unat_byte) simp
  have p: "fromhex [hexchar (n div 16 mod 16), hexchar (n mod 16)] = Some [?b]"
    by (rule fromhex_pair) simp_all
  have h: "hexlify (2 * Suc k) n =
             hexlify (2 * k) (n div 256) @ [hexchar (n div 16 mod 16), hexchar (n mod 16)]"
    by (simp only: mult_Suc_right add_2_eq_Suc hexlify_two)
  have "fromhex (hexlify (2 * k) (n div 256) @ [hexchar (n div 16 mod 16), hexchar (n mod 16)])
          = Some (bs @ [?b])"
    using fromhex_append [OF bs(1), of "[hexchar (n div 16 mod 16), hexchar (n mod 16)]"]
    unfolding p by simp
  then have "fromhex (hexlify (2 * Suc k) n) = Some (bs @ [?b])"
    unfolding h .
  moreover have "nat_of_bytes (bs @ [?b]) = n mod 256 ^ Suc k"
    using mod_mult2_eq [of n 256 "256 ^ k"]
    by (simp only: nat_of_bytes_snoc bs(3) u) simp
  ultimately show ?case using bs(2) by simp
qed

lemma length_hexlify: "length (hexlify k n) = k"
  by (induction k arbitrary: n) auto

lemma length_ObjectId_str: "length (ObjectId_str oid) = 24"
  by (simp add: ObjectId_str_def length_hexlify del: hexlify.simps)

lemma ObjectId_str_nonempty: "ObjectId_str oid \<noteq> []"
  using length_ObjectId_str [of oid] by auto

lemma ObjectId_roundtrip: "ObjectId (ObjectId_str oid) = Inr (Oid oid)"
proof -
  obtain bs where bs: "fromhex (hexlify (2 * 12) (unat oid)) = Some bs" "length bs = 12"
    "nat_of_bytes bs = unat oid mod 256 ^ 12"
    using fromhex_hexlify [of 12 "unat oid"] by blast
  have "unat oid < 2 ^ 96" using unsigned_less [of oid] by simp
  then have "unat oid mod 256 ^ 12 = unat oid" by simp
  then show ?thesis
    using bs by (simp add: ObjectId_def ObjectId_str_def length_hexlify del: hexlify.simps)
qed

subsection \<open>Driver calls and the reshaping of documents\<close>

lemma fromhex_length: "fromhex s = Some bs \<Longrightarrow> 2 * length bs \<le> length s"
  by (induction s arbitrary: bs rule: fromhex.induct)
     (auto split: if_splits option.splits)

lemma ObjectId_short: "ObjectId s = Inr (ShortOid bs) \<Longrightarrow> length bs < 12"
  by (auto simp: ObjectId_def split: if_splits option.splits dest!: fromhex_length)

lemma ObjectId_error: "ObjectId s = Inl e \<Longrightarrow> e = InvalidId s"
  by (auto simp: ObjectId_def split: if_splits option.splits)

lemma find_one_None: "find_one coll v = None \<longleftrightarrow> (\<forall>d\<in>set coll. map_of d ''_id'' \<noteq> Some v)"
  by (auto simp: find_one_def matches_def find_None_iff)

lemma find_one_Some: "find_one coll v = Some d \<Longrightarrow> d \<in> set coll \<and> map_of d ''_id'' = Some v"
  by (auto simp: find_one_def matches_def find_Some_iff)

lemma find_one_append:
  "find_one (xs @ ys) v = (case find_one xs v of None \<Rightarrow> find_one ys v | Some d \<Rightarrow> Some d)"
  by (induction xs) (auto simp: find_one_def)

lemma expose_id_stored:
  assumes "map_of d ''_id'' = Some v"
  shows "expose_id d = Inr (AList.delete ''_id'' (AList.update ''id'' (Str (py_str v)) d))"
  using assms
  by (simp add: expose_id_def py_getitem_def py_setitem_def py_delitem_def update_conv')

lemma expose_id_Inr:
  assumes "expose_id d = Inr r"
  shows "\<exists>v. map_of d ''_id'' = Some v \<and>
           r = AList.delete ''_id'' (AList.update ''id'' (Str (py_str v)) d)"
  using assms
  by (auto simp: expose_id_def py_getitem_def py_setitem_def py_delitem_def update_conv'
           split: option.splits)

lemma map_of_exposed:
  "map_of (AList.delete ''_id'' (AList.update ''id'' x d)) k =
     (if k = ''_id'' then None else if k = ''id'' then Some x else map_of d k)"
  by (simp add: delete_conv' update_conv')

lemma update_one_absent:
  "\<forall>d\<in>set coll. map_of d ''_id'' \<noteq> Some v \<Longrightarrow> update_one coll v upd = coll"
  by (induction coll) (auto simp: matches_def)

lemma map_of_set_fields_other:
  "k \<notin> fst ` set upd \<Longrightarrow> map_of (set_fields upd d) k = map_of d k"
  unfolding set_fields_def
  by (induction upd arbitrary: d) (auto simp: update_conv')

lemma map_of_set_TodoUpdate:
  "map_of (set_fields (dict_TodoUpdate todo) d) =
     (map_of d)(''title'' \<mapsto> Str (title todo),
                ''description'' \<mapsto> Str (description todo),
                ''deadline'' \<mapsto> Str (deadline todo))"
  by (simp add: set_fields_def dict_TodoUpdate_def update_conv')

lemma keys_dict_TodoUpdate: "''_id'' \<notin> fst ` set (dict_TodoUpdate todo)"
  by (simp add: dict_TodoUpdate_def)

lemma filter_update_one:
  assumes "''_id'' \<notin> fst ` set upd"
  shows "filter (\<lambda>d. \<not> matches v d) (update_one coll v upd) = filter (\<lambda>d. \<not> matches v d) coll"
  using assms
  by (induction coll) (auto simp: matches_def map_of_set_fields_other)

lemma find_one_update_one:
  assumes "''_id'' \<notin> fst ` set upd"
  shows "find_one (update_one coll v upd) v = map_option (set_fields upd) (find_one coll v)"
  using assms
  by (induction coll) (auto simp: find_one_def matches_def map_of_set_fields_other)

lemma find_holds: "List.find P xs = Some x \<Longrightarrow> P x"
  by (auto simp: find_Some_iff)

lemma delete_one_find:
  "delete_one coll v =
     (case find_one coll v of None \<Rightarrow> (coll, 0) | Some d \<Rightarrow> (remove1 d coll, 1))"
  by (induction coll) (auto simp: find_one_def split: option.splits dest: find_holds)

lemma filter_remove1_match:
  "matches v d \<Longrightarrow> filter (\<lambda>d. \<not> matches v d) (remove1 d coll) = filter (\<lambda>d. \<not> matches v d) coll"
  by (induction coll) auto

subsection \<open>The handlers in closed form\<close>

lemma others_matches: "others oid coll = filter (\<lambda>d. \<not> matches (Oid oid) d) coll"
  by (simp add: others_def matches_def)

lemma length_remove1_less: "d \<in> set coll \<Longrightarrow> length (remove1 d coll) < length coll"
  by (simp add: length_remove1) (cases coll; auto)

lemma find_one_single:
  "find_one [d] v = (if map_of d ''_id'' = Some v then Some d else None)"
  by (simp add: find_one_def matches_def)

lemma create_todo_eq:
  "create_todo coll new_oid todo =
     (if find_one coll (Oid new_oid) \<noteq> None then (Inl DuplicateKeyError, coll)
      else (Inr [(''title'', Str (title todo)), (''description'', Str (description todo)),
                 (''deadline'', Str (deadline todo)), (''id'', Str (ObjectId_str new_oid))],
            coll @ [[(''_id'', Oid new_oid), (''title'', Str (title todo)),
                     (''description'', Str (description todo)),
                     (''deadline'', Str (deadline todo))]]))"
  by (simp add: create_todo_def dict_Todo_def insert_one_def find_one_append find_one_single
        Let_def expose_id_def py_getitem_def py_setitem_def py_delitem_def)

lemma delete_todo_eq:
  assumes "ObjectId ident = Inr (Oid oid)"
  shows "delete_todo coll ident =
           (case find_one coll (Oid oid) of
              Some d \<Rightarrow> (Inr [(''message'', Str ''Todo deleted successfully'')], remove1 d coll)
            | None \<Rightarrow> (Inl (HTTPException 404 ''Todo not found''), coll))"
  using assms
  by (simp add: delete_todo_def delete_one_find not_found_def split: option.splits)

lemma get_todo_found:
  assumes "ObjectId ident = Inr (Oid oid)" and "find_one coll (Oid oid) = Some d"
  shows "get_todo coll ident =
           (Inr (AList.delete ''_id'' (AList.update ''id'' (Str (ObjectId_str oid)) d)), coll)"
proof -
  have id: "map_of d ''_id'' = Some (Oid oid)"
    using assms(2) by (simp add: find_one_Some)
  then have "d \<noteq> []" by auto
  then show ?thesis
    using assms expose_id_stored [OF id] by (simp add: get_todo_def)
qed

lemma update_todo_found:
  assumes "ObjectId ident = Inr (Oid oid)" and "find_one coll (Oid oid) = Some d"
  shows "update_todo coll ident todo =
           (Inr (AList.delete ''_id'' (AList.update ''id'' (Str (ObjectId_str oid))
                   (set_fields (dict_TodoUpdate todo) d))),
            update_one coll (Oid oid) (dict_TodoUpdate todo))"
proof -
  let ?d = "set_fields (dict_TodoUpdate todo) d"
  have f: "find_one (update_one coll (Oid oid) (dict_TodoUpdate todo)) (Oid oid) = Some ?d"
    using assms(2) by (simp add: find_one_update_one [OF keys_dict_TodoUpdate])
  then have id: "map_of ?d ''_id'' = Some (Oid oid)"
    by (simp add: find_one_Some)
  then have "?d \<noteq> []" by auto
  then show ?thesis
    using assms(1) f expose_id_stored [OF id] by (simp add: update_todo_def)
qed

subsection \<open>Public records and the listing loop\<close>

lemma count_key_distinct:
  "distinct (map fst d) \<Longrightarrow> count_key k d = (if map_of d k = None then 0 else 1)"
proof (induction d)
  case Nil
  then show ?case by (simp add: count_key_def)
next
  case (Cons p d)
  then show ?case
    by (cases p) (auto simp: count_key_def map_of_eq_None_iff image_iff)
qed

lemma distinct_set_fields:
  "distinct (map fst d) \<Longrightarrow> distinct (map fst (set_fields upd d))"
  unfolding set_fields_def
  by (induction upd arbitrary: d) (auto simp: distinct_update)

lemma native_fields_update_Str:
  "distinct (map fst d) \<Longrightarrow>
     native_fields (AList.update k (Str s) d) = filter (\<lambda>p. fst p \<noteq> k) (native_fields d)"
proof (induction d)
  case Nil
  then show ?case by (simp add: native_fields_def)
next
  case (Cons p d)
  show ?case
  proof (cases "fst p = k")
    case True
    then have "\<forall>q\<in>set d. fst q \<noteq> k" using Cons.prems by (force simp: image_iff)
    then have "filter (\<lambda>p. fst p \<noteq> k) (native_fields d) = native_fields d"
      by (induction d) (auto simp: native_fields_def)
    then show ?thesis using True by (simp add: native_fields_def)
  next
    case False
    then show ?thesis using Cons by (simp add: native_fields_def)
  qed
qed

lemma native_fields_delete:
  "native_fields (AList.delete k d) = filter (\<lambda>p. fst p \<noteq> k) (native_fields d)"
  by (induction d) (auto simp: native_fields_def)

lemma native_fields_exposed:
  assumes "distinct (map fst d)"
  shows "native_fields (AList.delete ''_id'' (AList.update ''id'' (Str s) d)) =
           filter (\<lambda>p. fst p \<noteq> ''_id'' \<and> fst p \<noteq> ''id'') (native_fields d)"
proof -
  have "native_fields (AList.delete ''_id'' (AList.update ''id'' (Str s) d)) =
          filter (\<lambda>p. fst p \<noteq> ''_id'') (filter (\<lambda>p. fst p \<noteq> ''id'') (native_fields d))"
    by (simp only: native_fields_delete native_fields_update_Str [OF assms])
  also have "\<dots> = filter (\<lambda>p. fst p \<noteq> ''_id'' \<and> fst p \<noteq> ''id'') (native_fields d)"
    by (simp add: conj_commute)
  finally show ?thesis .
qed

lemma expose_id_public:
  assumes "expose_id d = Inr r" and "distinct (map fst d)"
  shows "public_form d r"
proof -
  obtain v where v: "map_of d ''_id'' = Some v"
    and r: "r = AList.delete ''_id'' (AList.update ''id'' (Str (py_str v)) d)"
    using expose_id_Inr [OF assms(1)] by blast
  have dist: "distinct (map fst r)"
    unfolding r using assms(2) by (intro distinct_delete distinct_update)
  have m: "map_of r ''id'' = Some (Str (py_str v))" "map_of r ''_id'' = None"
    by (simp_all add: r map_of_exposed)
  have "count_key ''id'' r = 1" "count_key ''_id'' r = 0"
    by (simp_all only: count_key_distinct [OF dist] m) simp_all
  moreover have "native_fields r =
      filter (\<lambda>p. fst p \<noteq> ''_id'' \<and> fst p \<noteq> ''id'') (native_fields d)"
    unfolding r using assms(2) by (rule native_fields_exposed)
  ultimately show ?thesis
    using v m by (simp add: public_form_def)
qed

lemma get_todos_loop_Inr:
  "get_todos_loop ds todos = Inr rs \<Longrightarrow>
     \<exists>rs'. rs = todos @ rs' \<and> list_all2 (\<lambda>d r. expose_id d = Inr r) ds rs'"
proof (induction ds arbitrary: todos)
  case Nil
  then show ?case by simp
next
  case (Cons d ds)
  then obtain r where r: "expose_id d = Inr r"
    and rest: "get_todos_loop ds (todos @ [r]) = Inr rs"
    by (auto split: sum.splits)
  from Cons.IH [OF rest] obtain rs' where
    "rs = (todos @ [r]) @ rs'" "list_all2 (\<lambda>d r. expose_id d = Inr r) ds rs'"
    by blast
  then have "rs = todos @ (r # rs') \<and> list_all2 (\<lambda>d r. expose_id d = Inr r) (d # ds) (r # rs')"
    using r by simp
  then show ?case by blast
qed

lemma get_todos_loop_total:
  "\<forall>d\<in>set ds. map_of d ''_id'' \<noteq> None \<Longrightarrow>
     \<exists>rs. get_todos_loop ds todos = Inr (todos @ rs) \<and>
          list_all2 (\<lambda>d r. expose_id d = Inr r) ds rs"
proof (induction ds arbitrary: todos)
  case Nil
  then show ?case by simp
next
  case (Cons d ds)
  then obtain v where "map_of d ''_id'' = Some v" by auto
  then obtain r where r: "expose_id d = Inr r"
    using expose_id_stored by blast
  from Cons obtain rs where
    "get_todos_loop ds (todos @ [r]) = Inr ((todos @ [r]) @ rs)"
    "list_all2 (\<lambda>d r. expose_id d = Inr r) ds rs"
    by (metis list.set_intros(2))
  then have "get_todos_loop (d # ds) todos = Inr (todos @ (r # rs)) \<and>
             list_all2 (\<lambda>d r. expose_id d = Inr r) (d # ds) (r # rs)"
    using r by simp
  then show ?case by blast
qed

subsection \<open>The example data evaluated\<close>

lemma parse_stored:
  "ObjectId ''507f1f77bcf86cd799439011'' = Inr (Oid 0x507f1f77bcf86cd799439011)"
  by (simp add: ObjectId_def hexval_def is_space_def nat_of_bytes_def)

lemma parse_absent:
  "ObjectId ''507f191e810c19729de860ea'' = Inr (Oid 0x507f191e810c19729de860ea)"
  by (simp add: ObjectId_def hexval_def is_space_def nat_of_bytes_def)

lemma parse_malformed: "ObjectId ''42'' = Inl (InvalidId ''42'')"
  by (simp add: ObjectId_def)

lemma parse_not_hex:
  "ObjectId ''507f1f77bcf86cd79943901g'' = Inl (InvalidId ''507f1f77bcf86cd79943901g'')"
  by (simp add: ObjectId_def hexval_def is_space_def)

lemma parse_split_byte:
  "ObjectId ''507f1f77bcf86cd79943901 1'' = Inl (InvalidId ''507f1f77bcf86cd79943901 1'')"
  by (simp add: ObjectId_def hexval_def is_space_def)

text \<open>
  Twenty-two digits and two spaces pass the length test and \<^verbatim>\<open>bytes.fromhex\<close>: the
  constructor returns an object of eleven bytes, which is the \<^verbatim>\<open>_id\<close> of no stored
  document, so the request is answered with 404 and not with the parser's exception.
\<close>

lemma parse_spaced:
  "ObjectId ''507f1f77bcf86cd7994390  '' =
     Inr (ShortOid [0x50, 0x7f, 0x1f, 0x77, 0xbc, 0xf8, 0x6c, 0xd7, 0x99, 0x43, 0x90])"
  by (simp add: ObjectId_def hexval_def is_space_def)

lemma spaced_id_not_found:
  "get_todo [milk] ''507f1f77bcf86cd7994390  '' = (Inl (HTTPException 404 ''Todo not found''), [milk])"
  by (simp add: get_todo_def parse_spaced find_one_def matches_def milk_def not_found_def)

lemma absent_in_example:
  "\<forall>d\<in>set [milk]. map_of d ''_id'' \<noteq> Some (Oid 0x507f191e810c19729de860ea)"
  by (simp add: milk_def)

lemma str_fresh: "ObjectId_str 0x507f191e810c19729de860ea = ''507f191e810c19729de860ea''"
  by (simp add: ObjectId_str_def hexchar_def hexlify_numeral)

lemma str_stored: "ObjectId_str 0x507f1f77bcf86cd799439011 = ''507f1f77bcf86cd799439011''"
  by (simp add: ObjectId_str_def hexchar_def hexlify_numeral)

lemma str_bread: "ObjectId_str 0x65a1b2c3d4e5f60718293a4b = ''65a1b2c3d4e5f60718293a4b''"
  by (simp add: ObjectId_str_def hexchar_def hexlify_numeral)

lemma example_has_ids: "\<forall>d\<in>set [milk, bread]. map_of d ''_id'' \<noteq> None"
  by (simp add: milk_def bread_def)

lemma example_distinct_keys: "\<forall>d\<in>set [milk, bread]. distinct (map fst d)"
  by (simp add: milk_def bread_def)

lemma find_milk: "find_one [milk, bread] (Oid 0x507f1f77bcf86cd799439011) = Some milk"
  by (simp add: find_one_def matches_def milk_def)

lemma new_id_unused:
  "find_one [milk, bread] (Oid 0x507f191e810c19729de860ea) = None"
  by (simp add: find_one_def matches_def milk_def bread_def)

section \<open>The claims\<close>

text \<open>
  C8. When the path identifier does not parse as an object id, that is when
  \<^verbatim>\<open>ObjectId(id)\<close> raises (the string has not 24 characters, or \<^verbatim>\<open>bytes.fromhex\<close>
  rejects it), \<^verbatim>\<open>get_todo\<close>, \<^verbatim>\<open>update_todo\<close> and \<^verbatim>\<open>delete_todo\<close> all end with
  the parser's \<^verbatim>\<open>InvalidId\<close> exception: no handler turns it into an
  \<^verbatim>\<open>HTTPException\<close> (so there is no 404 and no 422 from the handler), and the
  collection is not touched.
\<close>

theorem malformed_id_propagates:
  assumes "ObjectId ident = Inl e"
  shows "e = InvalidId ident \<and>
         get_todo coll ident = (Inl (InvalidId ident), coll) \<and>
         update_todo coll ident todo = (Inl (InvalidId ident), coll) \<and>
         delete_todo coll ident = (Inl (InvalidId ident), coll)"
proof -
  have e: "e = InvalidId ident" using assms by (rule ObjectId_error)
  with assms show ?thesis
    by (simp add: get_todo_def update_todo_def delete_todo_def)
qed

theorem malformed_id_propagates_witness:
  "ObjectId ''507f1f77bcf86cd79943901g'' = Inl (InvalidId ''507f1f77bcf86cd79943901g'') \<and>
   get_todo [milk] ''507f1f77bcf86cd79943901g''
     = (Inl (InvalidId ''507f1f77bcf86cd79943901g''), [milk]) \<and>
   update_todo [milk] ''507f1f77bcf86cd79943901g'' oat_milk
     = (Inl (InvalidId ''507f1f77bcf86cd79943901g''), [milk]) \<and>
   delete_todo [milk] ''507f1f77bcf86cd79943901g''
     = (Inl (InvalidId ''507f1f77bcf86cd79943901g''), [milk])"
  using parse_not_hex malformed_id_propagates [OF parse_not_hex, of "[milk]" oat_milk]
  by simp

text \<open>
  C3. When the identifier parses and no document of the collection has it as
  \<^verbatim>\<open>_id\<close>, each of \<^verbatim>\<open>get_todo\<close>, \<^verbatim>\<open>update_todo\<close> and \<^verbatim>\<open>delete_todo\<close> raises
  \<^verbatim>\<open>HTTPException(status_code=404)\<close>.
\<close>

theorem absent_id_is_404:
  assumes "ObjectId ident = Inr (Oid oid)"
    and "\<forall>d\<in>set coll. map_of d ''_id'' \<noteq> Some (Oid oid)"
  shows "fst (get_todo coll ident) = Inl (HTTPException 404 ''Todo not found'') \<and>
         fst (update_todo coll ident todo) = Inl (HTTPException 404 ''Todo not found'') \<and>
         fst (delete_todo coll ident) = Inl (HTTPException 404 ''Todo not found'')"
proof -
  have none: "find_one coll (Oid oid) = None"
    using assms(2) by (simp add: find_one_None)
  have upd: "update_one coll (Oid oid) (dict_TodoUpdate todo) = coll"
    using assms(2) by (rule update_one_absent)
  show ?thesis
    using assms(1) none upd
    by (simp add: get_todo_def update_todo_def delete_todo_def delete_one_find not_found_def)
qed

theorem absent_id_is_404_witness:
  "ObjectId ''507f191e810c19729de860ea'' = Inr (Oid 0x507f191e810c19729de860ea) \<and>
   list_all (\<lambda>d. map_of d ''_id'' \<noteq> Some (Oid 0x507f191e810c19729de860ea)) [milk] \<and>
   fst (get_todo [milk] ''507f191e810c19729de860ea'') = Inl (HTTPException 404 ''Todo not found'') \<and>
   fst (update_todo [milk] ''507f191e810c19729de860ea'' oat_milk)
     = Inl (HTTPException 404 ''Todo not found'') \<and>
   fst (delete_todo [milk] ''507f191e810c19729de860ea'') = Inl (HTTPException 404 ''Todo not found'')"
  using parse_absent absent_in_example
    absent_id_is_404 [OF parse_absent absent_in_example, of oat_milk]
  by simp

text \<open>
  C9. \<^verbatim>\<open>update_todo\<close> always leaves the collection in the state the
  \<^verbatim>\<open>$set\<close> call produced, whether or not a document matched: the call is issued
  unconditionally. When no document has the identifier, that call changes nothing, the
  re-fetch finds nothing, and the handler raises 404 with the collection as it was.
\<close>

theorem update_absent_is_noop:
  assumes "ObjectId ident = Inr (Oid oid)"
  shows "snd (update_todo coll ident todo) = update_one coll (Oid oid) (dict_TodoUpdate todo) \<and>
         ((\<forall>d\<in>set coll. map_of d ''_id'' \<noteq> Some (Oid oid)) \<longrightarrow>
            update_one coll (Oid oid) (dict_TodoUpdate todo) = coll \<and>
            find_one (update_one coll (Oid oid) (dict_TodoUpdate todo)) (Oid oid) = None \<and>
            update_todo coll ident todo = (Inl (HTTPException 404 ''Todo not found''), coll))"
proof -
  have st: "snd (update_todo coll ident todo) = update_one coll (Oid oid) (dict_TodoUpdate todo)"
    using assms by (simp add: update_todo_def Let_def split: option.splits)
  have "update_one coll (Oid oid) (dict_TodoUpdate todo) = coll \<and>
        find_one (update_one coll (Oid oid) (dict_TodoUpdate todo)) (Oid oid) = None \<and>
        update_todo coll ident todo = (Inl (HTTPException 404 ''Todo not found''), coll)"
    if absent: "\<forall>d\<in>set coll. map_of d ''_id'' \<noteq> Some (Oid oid)"
  proof -
    have upd: "update_one coll (Oid oid) (dict_TodoUpdate todo) = coll"
      using absent by (rule update_one_absent)
    have none: "find_one coll (Oid oid) = None"
      using absent by (simp add: find_one_None)
    show ?thesis
      using assms upd none by (simp add: update_todo_def not_found_def)
  qed
  with st show ?thesis by blast
qed

theorem update_absent_is_noop_witness:
  "ObjectId ''507f191e810c19729de860ea'' = Inr (Oid 0x507f191e810c19729de860ea) \<and>
   list_all (\<lambda>d. map_of d ''_id'' \<noteq> Some (Oid 0x507f191e810c19729de860ea)) [milk] \<and>
   update_one [milk] (Oid 0x507f191e810c19729de860ea) (dict_TodoUpdate oat_milk) = [milk] \<and>
   update_todo [milk] ''507f191e810c19729de860ea'' oat_milk
     = (Inl (HTTPException 404 ''Todo not found''), [milk])"
  using parse_absent absent_in_example
    update_absent_is_noop [OF parse_absent, of "[milk]" oat_milk]
  by simp

text \<open>
  C4. With an identifier that parses, \<^verbatim>\<open>delete_todo\<close> removes the first document that
  carries it and returns \<^verbatim>\<open>{"message": "Todo deleted successfully"}\<close>; when no document
  carries it the handler raises 404 and the collection is as before. The message is
  returned exactly when the collection lost a document, and 404 exactly when none matched.
\<close>

theorem delete_todo_removes_or_404:
  assumes "ObjectId ident = Inr (Oid oid)"
  shows "delete_todo coll ident =
           (case List.find (\<lambda>d. map_of d ''_id'' = Some (Oid oid)) coll of
              Some d \<Rightarrow> (Inr [(''message'', Str ''Todo deleted successfully'')], remove1 d coll)
            | None \<Rightarrow> (Inl (HTTPException 404 ''Todo not found''), coll)) \<and>
         (fst (delete_todo coll ident) = Inr [(''message'', Str ''Todo deleted successfully'')]
            \<longleftrightarrow> length (snd (delete_todo coll ident)) < length coll) \<and>
         (fst (delete_todo coll ident) = Inl (HTTPException 404 ''Todo not found'')
            \<longleftrightarrow> (\<forall>d\<in>set coll. map_of d ''_id'' \<noteq> Some (Oid oid)))"
proof -
  have eq: "delete_todo coll ident =
           (case find_one coll (Oid oid) of
              Some d \<Rightarrow> (Inr [(''message'', Str ''Todo deleted successfully'')], remove1 d coll)
            | None \<Rightarrow> (Inl (HTTPException 404 ''Todo not found''), coll))"
    using assms by (rule delete_todo_eq)
  have f: "List.find (\<lambda>d. map_of d ''_id'' = Some (Oid oid)) coll = find_one coll (Oid oid)"
    by (simp add: find_one_def matches_def [abs_def])
  show ?thesis
  proof (cases "find_one coll (Oid oid)")
    case None
    then have absent: "\<forall>d\<in>set coll. map_of d ''_id'' \<noteq> Some (Oid oid)"
      by (simp add: find_one_None)
    have "delete_todo coll ident = (Inl (HTTPException 404 ''Todo not found''), coll)"
      using eq None by simp
    then show ?thesis using f None absent by simp
  next
    case (Some d)
    then have "d \<in> set coll" "map_of d ''_id'' = Some (Oid oid)"
      by (auto dest: find_one_Some)
    then show ?thesis using eq f Some by (auto simp: length_remove1_less)
  qed
qed

theorem delete_todo_removes_or_404_witness:
  "ObjectId ''507f1f77bcf86cd799439011'' = Inr (Oid 0x507f1f77bcf86cd799439011) \<and>
   delete_todo [milk] ''507f1f77bcf86cd799439011''
     = (Inr [(''message'', Str ''Todo deleted successfully'')], []) \<and>
   length (snd (delete_todo [milk] ''507f1f77bcf86cd799439011'')) < length [milk]"
  using parse_stored delete_todo_removes_or_404 [OF parse_stored, of "[milk]"]
  by (simp add: milk_def)

text \<open>
  C10. The documents whose \<^verbatim>\<open>_id\<close> differs from the identifier a request addresses are
  the same, in the same order, after \<^verbatim>\<open>get_todo\<close>, \<^verbatim>\<open>update_todo\<close> and
  \<^verbatim>\<open>delete_todo\<close>; and the documents whose \<^verbatim>\<open>_id\<close> differs from the newly assigned
  identifier are the same after \<^verbatim>\<open>create_todo\<close>.
\<close>

theorem other_documents_unchanged:
  assumes "ObjectId ident = Inr (Oid oid)"
  shows "others oid (snd (get_todo coll ident)) = others oid coll \<and>
         others oid (snd (update_todo coll ident upd)) = others oid coll \<and>
         others oid (snd (delete_todo coll ident)) = others oid coll \<and>
         others new_oid (snd (create_todo coll new_oid todo)) = others new_oid coll"
proof -
  have g: "snd (get_todo coll ident) = coll"
    using assms by (simp add: get_todo_def split: option.splits)
  have u: "snd (update_todo coll ident upd) = update_one coll (Oid oid) (dict_TodoUpdate upd)"
    using assms by (simp add: update_todo_def Let_def split: option.splits)
  have d: "others oid (snd (delete_todo coll ident)) = others oid coll"
  proof (cases "find_one coll (Oid oid)")
    case None
    then show ?thesis using delete_todo_eq [OF assms, of coll] by simp
  next
    case (Some d)
    then have "matches (Oid oid) d" by (auto simp: matches_def dest: find_one_Some)
    then show ?thesis
      using delete_todo_eq [OF assms, of coll] Some
      by (simp add: others_matches filter_remove1_match)
  qed
  have c: "others new_oid (snd (create_todo coll new_oid todo)) = others new_oid coll"
    by (simp add: create_todo_eq others_def)
  show ?thesis
    using g u d c
    by (simp add: others_matches filter_update_one [OF keys_dict_TodoUpdate])
qed

theorem other_documents_unchanged_witness:
  "ObjectId ''507f1f77bcf86cd799439011'' = Inr (Oid 0x507f1f77bcf86cd799439011) \<and>
   others 0x507f1f77bcf86cd799439011 (snd (get_todo [milk, bread] ''507f1f77bcf86cd799439011''))
     = [bread] \<and>
   others 0x507f1f77bcf86cd799439011
     (snd (update_todo [milk, bread] ''507f1f77bcf86cd799439011'' oat_milk)) = [bread] \<and>
   others 0x507f1f77bcf86cd799439011 (snd (delete_todo [milk, bread] ''507f1f77bcf86cd799439011''))
     = [bread] \<and>
   others 0x507f191e810c19729de860ea
     (snd (create_todo [milk, bread] 0x507f191e810c19729de860ea eggs)) = [milk, bread]"
  using parse_stored
    other_documents_unchanged [OF parse_stored, of "[milk, bread]" oat_milk
      "0x507f191e810c19729de860ea" eggs]
  by (simp add: others_def milk_def bread_def)

text \<open>
  C1. When the identifier the driver generates is not yet in the collection,
  \<^verbatim>\<open>create_todo\<close> returns a record whose \<^verbatim>\<open>id\<close> is a non-empty string, and
  \<^verbatim>\<open>get_todo\<close> with that string, on the collection the create left, returns a record
  with the payload's \<^verbatim>\<open>title\<close>, \<^verbatim>\<open>description\<close> and \<^verbatim>\<open>deadline\<close> and the same
  \<^verbatim>\<open>id\<close>.
\<close>

theorem create_then_get:
  assumes "\<forall>d\<in>set coll. map_of d ''_id'' \<noteq> Some (Oid new_oid)"
  shows "\<exists>r coll' ident r'.
           create_todo coll new_oid todo = (Inr r, coll') \<and>
           map_of r ''id'' = Some (Str ident) \<and> ident \<noteq> [] \<and>
           get_todo coll' ident = (Inr r', coll') \<and>
           map_of r' ''title'' = Some (Str (title todo)) \<and>
           map_of r' ''description'' = Some (Str (description todo)) \<and>
           map_of r' ''deadline'' = Some (Str (deadline todo)) \<and>
           map_of r' ''id'' = Some (Str ident)"
proof -
  let ?doc = "[(''_id'', Oid new_oid), (''title'', Str (title todo)),
               (''description'', Str (description todo)), (''deadline'', Str (deadline todo))]"
  let ?r = "[(''title'', Str (title todo)), (''description'', Str (description todo)),
             (''deadline'', Str (deadline todo)), (''id'', Str (ObjectId_str new_oid))]"
  have none: "find_one coll (Oid new_oid) = None"
    using assms by (simp add: find_one_None)
  then have c: "create_todo coll new_oid todo = (Inr ?r, coll @ [?doc])"
    by (simp add: create_todo_eq)
  have f: "find_one (coll @ [?doc]) (Oid new_oid) = Some ?doc"
    using none by (simp add: find_one_append find_one_single)
  have g: "get_todo (coll @ [?doc]) (ObjectId_str new_oid) = (Inr ?r, coll @ [?doc])"
    using get_todo_found [OF ObjectId_roundtrip f] by simp
  show ?thesis
    using c g ObjectId_str_nonempty [of new_oid] by simp
qed

theorem create_then_get_witness:
  "list_all (\<lambda>d. map_of d ''_id'' \<noteq> Some (Oid 0x507f191e810c19729de860ea)) [milk] \<and>
   (\<exists>r coll' ident r'.
      create_todo [milk] 0x507f191e810c19729de860ea eggs = (Inr r, coll') \<and>
      map_of r ''id'' = Some (Str ident) \<and> ident \<noteq> [] \<and>
      get_todo coll' ident = (Inr r', coll') \<and>
      map_of r' ''title'' = Some (Str ''Buy eggs'') \<and>
      map_of r' ''description'' = Some (Str ''a dozen'') \<and>
      map_of r' ''deadline'' = Some (Str ''2024-01-03'') \<and>
      map_of r' ''id'' = Some (Str ident))"
  using absent_in_example create_then_get [OF absent_in_example, of eggs]
  by (simp add: eggs_def)

text \<open>
  C2. When the identifier parses and a document of the collection carries it,
  \<^verbatim>\<open>update_todo\<close> succeeds, and \<^verbatim>\<open>get_todo\<close> on the same identifier afterwards
  returns the same record, whose \<^verbatim>\<open>title\<close>, \<^verbatim>\<open>description\<close> and \<^verbatim>\<open>deadline\<close> are
  the three values of the payload, whatever the document held before.
\<close>

theorem update_then_get:
  assumes "ObjectId ident = Inr (Oid oid)"
    and "d \<in> set coll" and "map_of d ''_id'' = Some (Oid oid)"
  shows "\<exists>r coll'.
           update_todo coll ident todo = (Inr r, coll') \<and>
           get_todo coll' ident = (Inr r, coll') \<and>
           map_of r ''title'' = Some (Str (title todo)) \<and>
           map_of r ''description'' = Some (Str (description todo)) \<and>
           map_of r ''deadline'' = Some (Str (deadline todo))"
proof -
  have "find_one coll (Oid oid) \<noteq> None"
    using assms(2,3) by (auto simp: find_one_None)
  then obtain d0 where d0: "find_one coll (Oid oid) = Some d0" by auto
  let ?upd = "dict_TodoUpdate todo"
  let ?coll = "update_one coll (Oid oid) ?upd"
  let ?r = "AList.delete ''_id'' (AList.update ''id'' (Str (ObjectId_str oid)) (set_fields ?upd d0))"
  have u: "update_todo coll ident todo = (Inr ?r, ?coll)"
    using assms(1) d0 by (rule update_todo_found)
  have f: "find_one ?coll (Oid oid) = Some (set_fields ?upd d0)"
    using d0 by (simp add: find_one_update_one [OF keys_dict_TodoUpdate])
  have g: "get_todo ?coll ident = (Inr ?r, ?coll)"
    using assms(1) f by (rule get_todo_found)
  have "map_of ?r ''title'' = Some (Str (title todo))"
    "map_of ?r ''description'' = Some (Str (description todo))"
    "map_of ?r ''deadline'' = Some (Str (deadline todo))"
    by (simp_all add: map_of_exposed map_of_set_TodoUpdate)
  with u g show ?thesis by simp
qed

theorem update_then_get_witness:
  "ObjectId ''507f1f77bcf86cd799439011'' = Inr (Oid 0x507f1f77bcf86cd799439011) \<and>
   milk \<in> set [milk, bread] \<and>
   map_of milk ''_id'' = Some (Oid 0x507f1f77bcf86cd799439011) \<and>
   (\<exists>r coll'.
      update_todo [milk, bread] ''507f1f77bcf86cd799439011'' oat_milk = (Inr r, coll') \<and>
      get_todo coll' ''507f1f77bcf86cd799439011'' = (Inr r, coll') \<and>
      map_of r ''title'' = Some (Str ''Buy oat milk'') \<and>
      map_of r ''description'' = Some (Str ''2%'') \<and>
      map_of r ''deadline'' = Some (Str ''2024-01-02''))"
proof -
  have h2: "milk \<in> set [milk, bread]" by simp
  have h3: "map_of milk ''_id'' = Some (Oid 0x507f1f77bcf86cd799439011)"
    by (simp add: milk_def)
  show ?thesis
    using parse_stored h2 h3 update_then_get [OF parse_stored h2 h3, of oat_milk]
    by (simp add: oat_milk_def)
qed

text \<open>
  C5. \<^verbatim>\<open>create_todo\<close> stores a document made of the assigned \<^verbatim>\<open>_id\<close> and the three
  content fields only (the payload's \<^verbatim>\<open>id\<close> is not stored), and returns the three
  content fields with \<^verbatim>\<open>id\<close> the string form of the assigned identifier. The
  \<^verbatim>\<open>id\<close> the client sent has no influence: replacing it by any other value, or by
  none, gives the same result and the same collection.
\<close>

theorem create_assigns_id:
  assumes "\<forall>d\<in>set coll. map_of d ''_id'' \<noteq> Some (Oid new_oid)"
  shows "create_todo coll new_oid todo =
           (Inr [(''title'', Str (title todo)), (''description'', Str (description todo)),
                 (''deadline'', Str (deadline todo)), (''id'', Str (ObjectId_str new_oid))],
            coll @ [[(''_id'', Oid new_oid), (''title'', Str (title todo)),
                     (''description'', Str (description todo)),
                     (''deadline'', Str (deadline todo))]]) \<and>
         create_todo coll new_oid (todo\<lparr>id_field := client_id\<rparr>) = create_todo coll new_oid todo"
proof -
  have "find_one coll (Oid new_oid) = None"
    using assms by (simp add: find_one_None)
  then show ?thesis by (simp add: create_todo_eq)
qed

theorem create_assigns_id_witness:
  "list_all (\<lambda>d. map_of d ''_id'' \<noteq> Some (Oid 0x507f191e810c19729de860ea)) [milk] \<and>
   create_todo [milk] 0x507f191e810c19729de860ea eggs =
     (Inr [(''title'', Str ''Buy eggs''), (''description'', Str ''a dozen''),
           (''deadline'', Str ''2024-01-03''), (''id'', Str ''507f191e810c19729de860ea'')],
      [milk, [(''_id'', Oid 0x507f191e810c19729de860ea), (''title'', Str ''Buy eggs''),
              (''description'', Str ''a dozen''), (''deadline'', Str ''2024-01-03'')]]) \<and>
   id_field eggs = Some ''mine'' \<and>
   create_todo [milk] 0x507f191e810c19729de860ea (eggs\<lparr>id_field := None\<rparr>)
     = create_todo [milk] 0x507f191e810c19729de860ea eggs"
  using absent_in_example create_assigns_id [OF absent_in_example, of eggs None]
  by (simp add: eggs_def str_fresh)

text \<open>
  C6. Documents are dictionaries, so no key occurs twice in a stored document. Then every
  record that \<^verbatim>\<open>get_todos\<close>, \<^verbatim>\<open>get_todo\<close>, \<^verbatim>\<open>create_todo\<close> or \<^verbatim>\<open>update_todo\<close>
  returns is the public form of a stored document: the key \<^verbatim>\<open>id\<close> occurs exactly once,
  its value is the string form of that document's \<^verbatim>\<open>_id\<close>, the key \<^verbatim>\<open>_id\<close> does
  not occur, and the only values of the storage-native type left in the record are those
  the document holds under other keys (a document written by this service holds none).
\<close>

theorem returned_records_public:
  assumes "\<forall>d\<in>set coll. distinct (map fst d)"
  shows "(\<forall>rs. fst (get_todos coll) = Inr rs \<longrightarrow> list_all2 public_form coll rs) \<and>
         (\<forall>r. fst (get_todo coll ident) = Inr r \<longrightarrow> (\<exists>d\<in>set coll. public_form d r)) \<and>
         (\<forall>r. fst (create_todo coll new_oid todo) = Inr r \<longrightarrow>
              (\<exists>d\<in>set (snd (create_todo coll new_oid todo)). public_form d r)) \<and>
         (\<forall>r. fst (update_todo coll ident upd) = Inr r \<longrightarrow>
              (\<exists>d\<in>set (snd (update_todo coll ident upd)). public_form d r))"
proof (intro conjI allI impI)
  fix rs
  assume "fst (get_todos coll) = Inr rs"
  then have "get_todos_loop coll [] = Inr rs"
    by (simp add: get_todos_def find_all_def)
  then have "list_all2 (\<lambda>d r. expose_id d = Inr r) coll rs"
    using get_todos_loop_Inr by fastforce
  then show "list_all2 public_form coll rs"
    using assms
    by (auto simp: list_all2_conv_all_nth intro!: expose_id_public)
next
  fix r
  assume a: "fst (get_todo coll ident) = Inr r"
  then obtain v d where "find_one coll v = Some d" "expose_id d = Inr r"
    by (auto simp: get_todo_def split: sum.splits option.splits if_splits)
  then show "\<exists>d\<in>set coll. public_form d r"
    using assms by (auto dest!: find_one_Some intro!: bexI [of _ d] expose_id_public)
next
  fix r
  assume a: "fst (create_todo coll new_oid todo) = Inr r"
  let ?doc = "[(''_id'', Oid new_oid), (''title'', Str (title todo)),
               (''description'', Str (description todo)), (''deadline'', Str (deadline todo))]"
  from a have r: "r = [(''title'', Str (title todo)), (''description'', Str (description todo)),
                       (''deadline'', Str (deadline todo)), (''id'', Str (ObjectId_str new_oid))]"
    and s: "snd (create_todo coll new_oid todo) = coll @ [?doc]"
    by (auto simp: create_todo_eq split: if_splits)
  have "public_form ?doc r"
    by (simp add: public_form_def r count_key_def native_fields_def)
  then show "\<exists>d\<in>set (snd (create_todo coll new_oid todo)). public_form d r"
    using s by simp
next
  fix r
  assume a: "fst (update_todo coll ident upd) = Inr r"
  then obtain v d where
    s: "snd (update_todo coll ident upd) = update_one coll v (dict_TodoUpdate upd)"
    and p: "ObjectId ident = Inr v"
    and f: "find_one (update_one coll v (dict_TodoUpdate upd)) v = Some d"
    and e: "expose_id d = Inr r"
    by (auto simp: update_todo_def Let_def split: sum.splits option.splits if_splits)
  from f obtain d0 where d0: "find_one coll v = Some d0"
    and d: "d = set_fields (dict_TodoUpdate upd) d0"
    by (auto simp: find_one_update_one [OF keys_dict_TodoUpdate])
  from d0 have "d0 \<in> set coll" by (simp add: find_one_Some)
  then have dd: "distinct (map fst d)"
    using assms d by (simp add: distinct_set_fields)
  have "public_form d r" using e dd by (rule expose_id_public)
  moreover have "d \<in> set (snd (update_todo coll ident upd))"
    using f s by (simp add: find_one_Some)
  ultimately show "\<exists>d\<in>set (snd (update_todo coll ident upd)). public_form d r"
    by blast
qed

theorem returned_records_public_witness:
  "list_all (\<lambda>d. distinct (map fst d)) [milk, bread] \<and>
   (\<exists>rs. fst (get_todos [milk, bread]) = Inr rs \<and> list_all2 public_form [milk, bread] rs) \<and>
   (\<exists>r. fst (get_todo [milk, bread] ''507f1f77bcf86cd799439011'') = Inr r \<and>
        (\<exists>d\<in>set [milk, bread]. public_form d r)) \<and>
   (\<exists>r. fst (create_todo [milk, bread] 0x507f191e810c19729de860ea eggs) = Inr r \<and>
        (\<exists>d\<in>set (snd (create_todo [milk, bread] 0x507f191e810c19729de860ea eggs)).
           public_form d r)) \<and>
   (\<exists>r. fst (update_todo [milk, bread] ''507f1f77bcf86cd799439011'' oat_milk) = Inr r \<and>
        (\<exists>d\<in>set (snd (update_todo [milk, bread] ''507f1f77bcf86cd799439011'' oat_milk)).
           public_form d r))"
proof -
  note pub = returned_records_public [OF example_distinct_keys,
      of "''507f1f77bcf86cd799439011''" "0x507f191e810c19729de860ea" eggs oat_milk]
  obtain rs where "fst (get_todos [milk, bread]) = Inr rs"
    using get_todos_loop_total [OF example_has_ids, of "[]"]
    by (auto simp: get_todos_def find_all_def)
  then have a: "\<exists>rs. fst (get_todos [milk, bread]) = Inr rs \<and> list_all2 public_form [milk, bread] rs"
    using pub by blast
  obtain r where "fst (get_todo [milk, bread] ''507f1f77bcf86cd799439011'') = Inr r"
    using get_todo_found [OF parse_stored find_milk] by simp
  then have b: "\<exists>r. fst (get_todo [milk, bread] ''507f1f77bcf86cd799439011'') = Inr r \<and>
        (\<exists>d\<in>set [milk, bread]. public_form d r)"
    using pub by blast
  obtain r where "fst (create_todo [milk, bread] 0x507f191e810c19729de860ea eggs) = Inr r"
    using new_id_unused by (simp add: create_todo_eq)
  then have c: "\<exists>r. fst (create_todo [milk, bread] 0x507f191e810c19729de860ea eggs) = Inr r \<and>
        (\<exists>d\<in>set (snd (create_todo [milk, bread] 0x507f191e810c19729de860ea eggs)).
           public_form d r)"
    using pub by blast
  obtain r where "fst (update_todo [milk, bread] ''507f1f77bcf86cd799439011'' oat_milk) = Inr r"
    using update_todo_found [OF parse_stored find_milk] by simp
  then have d: "\<exists>r. fst (update_todo [milk, bread] ''507f1f77bcf86cd799439011'' oat_milk) = Inr r \<and>
        (\<exists>d\<in>set (snd (update_todo [milk, bread] ''507f1f77bcf86cd799439011'' oat_milk)).
           public_form d r)"
    using pub by blast
  have e: "list_all (\<lambda>d. distinct (map fst d)) [milk, bread]"
    using example_distinct_keys by simp
  show ?thesis
    using e a b c d by (intro conjI)
qed

text \<open>
  C7. When every stored document has an \<^verbatim>\<open>_id\<close> (which the store guarantees),
  \<^verbatim>\<open>get_todos\<close> returns one record per document, in the order of the store: the
  record at position \<open>i\<close> has the string form of the \<^verbatim>\<open>_id\<close> of document \<open>i\<close> as
  \<^verbatim>\<open>id\<close>, no \<^verbatim>\<open>_id\<close>, and every other field as stored. The collection is left as
  it was.
\<close>

theorem get_todos_lists_all:
  assumes "\<forall>d\<in>set coll. map_of d ''_id'' \<noteq> None"
  shows "\<exists>rs. get_todos coll = (Inr rs, coll) \<and> length rs = length coll \<and>
           (\<forall>i<length coll. \<exists>v.
              map_of (coll ! i) ''_id'' = Some v \<and>
              map_of (rs ! i) ''id'' = Some (Str (py_str v)) \<and>
              map_of (rs ! i) ''_id'' = None \<and>
              (\<forall>k. k \<noteq> ''id'' \<longrightarrow> k \<noteq> ''_id'' \<longrightarrow> map_of (rs ! i) k = map_of (coll ! i) k))"
proof -
  obtain rs where rs: "get_todos_loop coll [] = Inr rs"
    and all: "list_all2 (\<lambda>d r. expose_id d = Inr r) coll rs"
    using get_todos_loop_total [OF assms, of "[]"] by auto
  have len: "length rs = length coll"
    using all by (simp add: list_all2_lengthD)
  have "\<exists>v. map_of (coll ! i) ''_id'' = Some v \<and>
            map_of (rs ! i) ''id'' = Some (Str (py_str v)) \<and>
            map_of (rs ! i) ''_id'' = None \<and>
            (\<forall>k. k \<noteq> ''id'' \<longrightarrow> k \<noteq> ''_id'' \<longrightarrow> map_of (rs ! i) k = map_of (coll ! i) k)"
    if "i < length coll" for i
  proof -
    have "expose_id (coll ! i) = Inr (rs ! i)"
      using all that by (simp add: list_all2_conv_all_nth)
    then obtain v where "map_of (coll ! i) ''_id'' = Some v"
      "rs ! i = AList.delete ''_id'' (AList.update ''id'' (Str (py_str v)) (coll ! i))"
      using expose_id_Inr by blast
    then show ?thesis by (simp add: map_of_exposed)
  qed
  then show ?thesis
    using rs len by (simp add: get_todos_def find_all_def)
qed

theorem get_todos_lists_all_witness:
  "list_all (\<lambda>d. map_of d ''_id'' \<noteq> None) [milk, bread] \<and>
   (\<exists>rs. get_todos [milk, bread] = (Inr rs, [milk, bread]) \<and> length rs = 2 \<and>
      map_of (rs ! 0) ''id'' = Some (Str ''507f1f77bcf86cd799439011'') \<and>
      map_of (rs ! 0) ''title'' = Some (Str ''Buy milk'') \<and>
      map_of (rs ! 1) ''id'' = Some (Str ''65a1b2c3d4e5f60718293a4b'') \<and>
      map_of (rs ! 1) ''_id'' = None)"
proof -
  obtain rs where g: "get_todos [milk, bread] = (Inr rs, [milk, bread])"
    and len: "length rs = length [milk, bread]"
    and each: "\<forall>i<length [milk, bread]. \<exists>v.
              map_of ([milk, bread] ! i) ''_id'' = Some v \<and>
              map_of (rs ! i) ''id'' = Some (Str (py_str v)) \<and>
              map_of (rs ! i) ''_id'' = None \<and>
              (\<forall>k. k \<noteq> ''id'' \<longrightarrow> k \<noteq> ''_id'' \<longrightarrow> map_of (rs ! i) k = map_of ([milk, bread] ! i) k)"
    using get_todos_lists_all [OF example_has_ids] by blast
  from each have "\<exists>v. map_of milk ''_id'' = Some v \<and>
              map_of (rs ! 0) ''id'' = Some (Str (py_str v)) \<and>
              (\<forall>k. k \<noteq> ''id'' \<longrightarrow> k \<noteq> ''_id'' \<longrightarrow> map_of (rs ! 0) k = map_of milk k)"
    by force
  then have r0: "map_of (rs ! 0) ''id'' = Some (Str ''507f1f77bcf86cd799439011'')"
    "map_of (rs ! 0) ''title'' = Some (Str ''Buy milk'')"
    by (auto simp: milk_def str_stored)
  from each have "\<exists>v. map_of bread ''_id'' = Some v \<and>
              map_of (rs ! 1) ''id'' = Some (Str (py_str v)) \<and>
              map_of (rs ! 1) ''_id'' = None"
    by force
  then have r1: "map_of (rs ! 1) ''id'' = Some (Str ''65a1b2c3d4e5f60718293a4b'')"
    "map_of (rs ! 1) ''_id'' = None"
    by (auto simp: bread_def str_bread)
  show ?thesis
    using example_has_ids g len r0 r1 by simp
qed

end
